theory Spec2Isabelle
  imports Complex_Main "HOL-Library.Multiset" "HOL-Library.Sublist"
begin

section \<open>Luxe Couture API: the catalog query, the data source resolver and checkout\<close>

text \<open>
  The development embeds \<^verbatim>\<open>src/main.py\<close>. Python values are modelled as follows.

  \<^item> \<^verbatim>\<open>str\<close> is \<^typ>\<open>string\<close>; \<^verbatim>\<open>str.lower\<close> maps the ASCII capitals to their small
    letters and leaves every other character alone (the case mapping of characters beyond
    ASCII is not modelled).
  \<^item> \<^verbatim>\<open>Optional[str]\<close> is \<^typ>\<open>string option\<close>; the test \<^verbatim>\<open>if x:\<close> on such a value is
    \<open>truthy\<close>.
  \<^item> The \<^verbatim>\<open>float\<close> price of a product is a \<^typ>\<open>rat\<close>: every finite binary64 value is a
    rational and Python compares finite floats as the rationals they denote. NaN, which
    Python's comparison does not order, is not a price of the model.
  \<^item> A raised exception is the \<open>Inl\<close> branch of a sum type.
\<close>

subsection \<open>Strings\<close>

definition lower_char :: "char \<Rightarrow> char" where
  "lower_char c =
     (let n = (of_char c :: nat) in if 65 \<le> n \<and> n \<le> 90 then char_of (n + 32) else c)"

definition lower :: "string \<Rightarrow> string" where
  "lower s = map lower_char s"

text \<open>\<^verbatim>\<open>a in b\<close> on two strings: \<open>a\<close> occurs in \<open>b\<close> as a contiguous run of characters.\<close>

fun str_in :: "string \<Rightarrow> string \<Rightarrow> bool" where
  "str_in a [] = (a = [])"
| "str_in a (c # cs) = (prefix a (c # cs) \<or> str_in a cs)"

text \<open>The truth value of an \<^verbatim>\<open>Optional[str]\<close>: \<^verbatim>\<open>None\<close> and \<^verbatim>\<open>""\<close> are false.\<close>

fun truthy :: "string option \<Rightarrow> bool" where
  "truthy None = False"
| "truthy (Some s) = (s \<noteq> [])"

subsection \<open>The product model\<close>

record Product =
  id' :: string
  name :: string
  price :: rat
  gender :: string
  category :: string
  sizes :: "string list"
  images :: "string list"
  description :: "string option"
  tags :: "string list"
  featured :: bool
  new_arrival :: bool

definition st_laurent_coat :: Product where
  "st_laurent_coat = \<lparr>
     id' = ''st-laurent-coat'',
     name = ''Wool Cashmere Overcoat'',
     price = 2490,
     gender = ''men'',
     category = ''outerwear'',
     sizes = [''S'', ''M'', ''L'', ''XL''],
     images = [
       ''https://images.unsplash.com/photo-1516826957135-700dedea698c?q=80&w=1400&auto=format&fit=crop'',
       ''https://images.unsplash.com/photo-1490481651871-ab68de25d43d?q=80&w=1400&auto=format&fit=crop''],
     description = Some ''Tailored Italian wool-cashmere blend with silk lining.'',
     tags = [''coat'', ''cashmere'', ''luxury''],
     featured = True,
     new_arrival = False \<rparr>"

definition dior_heel_01 :: Product where
  "dior_heel_01 = \<lparr>
     id' = ''dior-heel-01'',
     name = ''Patent Leather Stiletto'',
     price = 980,
     gender = ''women'',
     category = ''shoes'',
     sizes = [''35'', ''36'', ''37'', ''38'', ''39'', ''40''],
     images = [
       ''https://images.unsplash.com/photo-1520975922215-c0495a1fd8ec?q=80&w=1400&auto=format&fit=crop'',
       ''https://images.unsplash.com/photo-1561808843-7c3b1b4e6b8c?q=80&w=1400&auto=format&fit=crop''],
     description = Some ''Glossy patent leather with gold accent heel.'',
     tags = [''heels'', ''gold''],
     featured = True,
     new_arrival = True \<rparr>"

definition gucci_bag_velvet :: Product where
  "gucci_bag_velvet = \<lparr>
     id' = ''gucci-bag-velvet'',
     name = ''Velvet Chain Shoulder Bag'',
     price = 3150,
     gender = ''women'',
     category = ''bags'',
     sizes = [],
     images = [
       ''https://images.unsplash.com/photo-1548036328-c9fa89d128fa?q=80&w=1400&auto=format&fit=crop'',
       ''https://images.unsplash.com/photo-1547949003-9792a18a2601?q=80&w=1400&auto=format&fit=crop''],
     description = Some ''Signature velvet with brushed gold chain.'',
     tags = [''bag'', ''chain'', ''velvet''],
     featured = False,
     new_arrival = True \<rparr>"

definition balenciaga_tee :: Product where
  "balenciaga_tee = \<lparr>
     id' = ''balenciaga-tee'',
     name = ''Logo Cotton T-Shirt'',
     price = 450,
     gender = ''unisex'',
     category = ''tops'',
     sizes = [''XS'', ''S'', ''M'', ''L'', ''XL''],
     images = [
       ''https://images.unsplash.com/photo-1544441893-675973e31985?q=80&w=1400&auto=format&fit=crop''],
     description = Some ''Premium heavyweight cotton with subtle logo print.'',
     tags = [''t-shirt'', ''cotton''],
     featured = False,
     new_arrival = False \<rparr>"

definition ysl_boots_chelsea :: Product where
  "ysl_boots_chelsea = \<lparr>
     id' = ''ysl-boots-chelsea'',
     name = ''Leather Chelsea Boots'',
     price = 1290,
     gender = ''men'',
     category = ''shoes'',
     sizes = [''40'', ''41'', ''42'', ''43'', ''44''],
     images = [
       ''https://images.unsplash.com/photo-1519741497674-611481863552?q=80&w=1400&auto=format&fit=crop''],
     description = Some ''Polished calfskin with elastic side panels.'',
     tags = [''boots'', ''leather''],
     featured = True,
     new_arrival = False \<rparr>"

definition SAMPLE_PRODUCTS :: "Product list" where
  "SAMPLE_PRODUCTS =
     [st_laurent_coat, dior_heel_01, gucci_bag_velvet, balenciaga_tee, ysl_boots_chelsea]"

subsection \<open>The catalog query\<close>

text \<open>
  \<^verbatim>\<open>sorted(xs, key=k, reverse=r)\<close>. Python's sort is stable, and with \<^verbatim>\<open>reverse=True\<close> it
  still keeps elements with equal keys in their original order: the list is reversed,
  sorted ascending by a stable sort, and reversed again.
\<close>

definition sorted_py :: "('a \<Rightarrow> 'k::linorder) \<Rightarrow> bool \<Rightarrow> 'a list \<Rightarrow> 'a list" where
  "sorted_py key reverse xs =
     (if reverse then rev (sort_key key (rev xs)) else sort_key key xs)"

text \<open>The three narrowing passes of \<^verbatim>\<open>list_products\<close>, each the list comprehension of the source.\<close>

definition gender_filter :: "string \<Rightarrow> Product list \<Rightarrow> Product list" where
  "gender_filter g items =
     filter (\<lambda>p. lower (gender p) = lower g \<or> (g = ''unisex'' \<and> gender p = ''unisex'')) items"

definition category_filter :: "string \<Rightarrow> Product list \<Rightarrow> Product list" where
  "category_filter c items = filter (\<lambda>p. lower (category p) = lower c) items"

definition search_filter :: "string \<Rightarrow> Product list \<Rightarrow> Product list" where
  "search_filter q items =
     (let ql = lower q
      in filter (\<lambda>p. str_in ql (lower (name p)) \<or> list_ex (\<lambda>t. str_in ql (lower t)) (tags p)) items)"

text \<open>
  \<^verbatim>\<open>list_products\<close>, with the list that \<^verbatim>\<open>fetch_products_from_db_or_sample()\<close> returned
  as its first argument. Each \<^verbatim>\<open>if\<close> statement of the body is one stage.
\<close>

definition gender_stage :: "string option \<Rightarrow> Product list \<Rightarrow> Product list" where
  "gender_stage gender_p items =
     (if truthy gender_p then gender_filter (the gender_p) items else items)"

definition category_stage :: "string option \<Rightarrow> Product list \<Rightarrow> Product list" where
  "category_stage category_p items =
     (if truthy category_p then category_filter (the category_p) items else items)"

definition search_stage :: "string option \<Rightarrow> Product list \<Rightarrow> Product list" where
  "search_stage q items = (if truthy q then search_filter (the q) items else items)"

definition sort_stage :: "string option \<Rightarrow> Product list \<Rightarrow> Product list" where
  "sort_stage sort_p items =
     (let items1 = (if sort_p = Some ''price_asc'' then sorted_py price False items else items);
          items2 = (if sort_p = Some ''price_desc'' then sorted_py price True items1 else items1)
      in items2)"

definition list_products ::
  "Product list \<Rightarrow> string option \<Rightarrow> string option \<Rightarrow> string option \<Rightarrow> string option
     \<Rightarrow> Product list" where
  "list_products items gender_p category_p q sort_p =
     sort_stage sort_p (search_stage q (category_stage category_p (gender_stage gender_p items)))"

text \<open>
  The specification's reading of the gender filter, a case-insensitive comparison and
  nothing else, and its notion of a substring.
\<close>

definition gender_filter_plain :: "string \<Rightarrow> Product list \<Rightarrow> Product list" where
  "gender_filter_plain g items = filter (\<lambda>p. lower (gender p) = lower g) items"

definition is_substring :: "string \<Rightarrow> string \<Rightarrow> bool" where
  "is_substring a b = (\<exists>pre post. b = pre @ a @ post)"

subsection \<open>Single-item lookup\<close>

datatype http_error = HTTPException nat string

text \<open>\<^verbatim>\<open>get_product\<close>: the \<^verbatim>\<open>for\<close> loop over the fetched list, then the \<^verbatim>\<open>raise\<close>.\<close>

fun get_product :: "Product list \<Rightarrow> string \<Rightarrow> http_error + Product" where
  "get_product [] product_id = Inl (HTTPException 404 ''Product not found'')"
| "get_product (p # items) product_id =
     (if id' p = product_id then Inr p else get_product items product_id)"

subsection \<open>The data source resolver\<close>

text \<open>
  The module \<^verbatim>\<open>database\<close> is not part of \<^verbatim>\<open>src/\<close>, so what it provides is a parameter of
  the model: the import raises, or it yields \<^verbatim>\<open>db\<close> (which may be \<^verbatim>\<open>None\<close>) and
  \<^verbatim>\<open>get_documents\<close>, whose call raises or returns documents. A document is a dictionary;
  the model keeps the keys that \<^verbatim>\<open>Product\<close> reads, each present or absent, with the
  \<^verbatim>\<open>_id\<close> key holding the text that \<^verbatim>\<open>str\<close> gives for it.
\<close>

datatype py_error = ImportError | DatabaseError | ValidationError

record Document =
  doc__id :: "string option"
  doc_id :: "string option"
  doc_name :: "string option"
  doc_price :: "rat option"
  doc_gender :: "string option"
  doc_category :: "string option"
  doc_sizes :: "string list option"
  doc_images :: "string list option"
  doc_description :: "string option"
  doc_tags :: "string list option"
  doc_featured :: "bool option"
  doc_new_arrival :: "bool option"

datatype database =
    Unavailable
  | NotConfigured
  | Configured "py_error + Document list"

text \<open>\<^verbatim>\<open>str(d.get("_id", d.get("id")))\<close>; \<^verbatim>\<open>str(None)\<close> is \<^verbatim>\<open>"None"\<close>.\<close>

definition document_id :: "Document \<Rightarrow> string" where
  "document_id d =
     (case doc__id d of
        Some s \<Rightarrow> s
      | None \<Rightarrow> (case doc_id d of Some s \<Rightarrow> s | None \<Rightarrow> ''None''))"

text \<open>
  \<^verbatim>\<open>Product(**{k: v for k, v in d.items() if k != "_id"})\<close> after \<^verbatim>\<open>d["id"]\<close> has been set:
  the fields without a default are required, the others take their default.
\<close>

definition product_of_document :: "Document \<Rightarrow> py_error + Product" where
  "product_of_document d =
     (case (doc_name d, doc_price d, doc_gender d, doc_category d) of
        (Some n, Some pr, Some g, Some c) \<Rightarrow>
          Inr \<lparr> id' = document_id d, name = n, price = pr, gender = g, category = c,
                sizes = (case doc_sizes d of Some v \<Rightarrow> v | None \<Rightarrow> []),
                images = (case doc_images d of Some v \<Rightarrow> v | None \<Rightarrow> []),
                description = doc_description d,
                tags = (case doc_tags d of Some v \<Rightarrow> v | None \<Rightarrow> []),
                featured = (case doc_featured d of Some v \<Rightarrow> v | None \<Rightarrow> False),
                new_arrival = (case doc_new_arrival d of Some v \<Rightarrow> v | None \<Rightarrow> False) \<rparr>
      | _ \<Rightarrow> Inl ValidationError)"

text \<open>The loop \<^verbatim>\<open>for d in docs: ... products.append(Product(...))\<close>.\<close>

fun load_products :: "Document list \<Rightarrow> Product list \<Rightarrow> py_error + Product list" where
  "load_products [] products = Inr products"
| "load_products (d # docs) products =
     (case product_of_document d of
        Inl e \<Rightarrow> Inl e
      | Inr p \<Rightarrow> load_products docs (products @ [p]))"

text \<open>
  The body of the \<^verbatim>\<open>try\<close>: it raises, returns a list (\<open>Some\<close>), or falls through to the
  end of the block (\<open>None\<close>).
\<close>

definition try_db :: "database \<Rightarrow> py_error + Product list option" where
  "try_db env =
     (case env of
        Unavailable \<Rightarrow> Inl ImportError
      | NotConfigured \<Rightarrow> Inr None
      | Configured r \<Rightarrow>
          (case r of
             Inl e \<Rightarrow> Inl e
           | Inr docs \<Rightarrow>
               (case load_products docs [] of
                  Inl e \<Rightarrow> Inl e
                | Inr products \<Rightarrow> if products \<noteq> [] then Inr (Some products) else Inr None)))"

text \<open>
  \<^verbatim>\<open>fetch_products_from_db_or_sample\<close>: \<^verbatim>\<open>except Exception: pass\<close> takes every raised
  error to the final \<^verbatim>\<open>return SAMPLE_PRODUCTS\<close>.
\<close>

definition fetch_products_from_db_or_sample :: "database \<Rightarrow> py_error + Product list" where
  "fetch_products_from_db_or_sample env =
     (case try_db env of
        Inr (Some products) \<Rightarrow> Inr products
      | Inr None \<Rightarrow> Inr SAMPLE_PRODUCTS
      | Inl e \<Rightarrow> Inr SAMPLE_PRODUCTS)"

subsection \<open>Checkout\<close>

text \<open>
  \<^verbatim>\<open>checkout\<close> computes with \<^verbatim>\<open>float\<close>, and its result depends on the rounding of every
  operation. A binary64 value is modelled as the rational it denotes, and every operation
  rounds its exact result to the nearest value with a 53-bit significand, ties to the even
  significand (\<open>fl64\<close>). The exponent is unbounded in the model: overflow to infinity and
  subnormal values are not modelled.
\<close>

definition round_half_even :: "rat \<Rightarrow> int" where
  "round_half_even x =
     (let f = \<lfloor>x\<rfloor>; r = x - of_int f
      in if r < 1 / 2 then f else if 1 / 2 < r then f + 1 else if even f then f else f + 1)"

text \<open>\<open>ilog2 x\<close> is the integer \<open>e\<close> with \<open>2 ^ e \<le> x < 2 ^ (e + 1)\<close>, for \<open>0 < x\<close>.\<close>

function ilog2 :: "rat \<Rightarrow> int" where
  "ilog2 x =
     (if x \<le> 0 then 0
      else if 2 \<le> x then ilog2 (x / 2) + 1
      else if x < 1 then ilog2 (x * 2) - 1
      else 0)"
  by pat_completeness auto
termination
proof (relation "measure (\<lambda>x. if 1 \<le> x then nat \<lfloor>x\<rfloor> else nat \<lfloor>1 / x\<rfloor> + 1)")
  show "wf (measure (\<lambda>x::rat. if 1 \<le> x then nat \<lfloor>x\<rfloor> else nat \<lfloor>1 / x\<rfloor> + 1))"
    by simp
next
  fix x :: rat
  assume "\<not> x \<le> 0" "2 \<le> x"
  then have "\<lfloor>x / 2\<rfloor> < \<lfloor>x\<rfloor>" and "1 \<le> \<lfloor>x / 2\<rfloor>"
    by linarith+
  with \<open>2 \<le> x\<close> show "(x / 2, x) \<in> measure (\<lambda>x. if 1 \<le> x then nat \<lfloor>x\<rfloor> else nat \<lfloor>1 / x\<rfloor> + 1)"
    by simp
next
  fix x :: rat
  assume pos: "\<not> x \<le> 0" and "\<not> 2 \<le> x" and lt1: "x < 1"
  define y where "y = 1 / x"
  from pos lt1 have y1: "1 < y"
    by (simp add: y_def)
  have goal: "(if 1 \<le> x * 2 then nat \<lfloor>x * 2\<rfloor> else nat \<lfloor>y / 2\<rfloor> + 1) < nat \<lfloor>y\<rfloor> + 1"
  proof (cases "1 \<le> x * 2")
    case True
    with lt1 have "\<lfloor>x * 2\<rfloor> = 1"
      by linarith
    moreover from y1 have "1 \<le> \<lfloor>y\<rfloor>"
      by linarith
    ultimately show ?thesis
      using True by simp
  next
    case False
    with pos have "2 < y"
      by (simp add: y_def field_simps)
    then have "\<lfloor>y / 2\<rfloor> < \<lfloor>y\<rfloor>" and "0 \<le> \<lfloor>y / 2\<rfloor>"
      by linarith+
    with \<open>2 < y\<close> show ?thesis
      using False by simp
  qed
  have half': "1 / (x * 2) = 1 / x / 2"
    by simp
  from lt1 have "\<not> 1 \<le> x"
    by simp
  with goal show "(x * 2, x) \<in> measure (\<lambda>x. if 1 \<le> x then nat \<lfloor>x\<rfloor> else nat \<lfloor>1 / x\<rfloor> + 1)"
    unfolding y_def by (simp only: in_measure if_False half')
qed

declare ilog2.simps [simp del]

definition pow2 :: "int \<Rightarrow> rat" where
  "pow2 e = (if 0 \<le> e then 2 ^ nat e else 1 / 2 ^ nat (- e))"

definition fl64 :: "rat \<Rightarrow> rat" where
  "fl64 x =
     (if x = 0 then 0
      else let q = ilog2 \<bar>x\<bar> - 52
           in of_int (round_half_even (x / pow2 q)) * pow2 q)"

definition float_mul :: "rat \<Rightarrow> rat \<Rightarrow> rat" where
  "float_mul a b = fl64 (a * b)"

definition float_add :: "rat \<Rightarrow> rat \<Rightarrow> rat" where
  "float_add a b = fl64 (a + b)"

definition float_of_int :: "int \<Rightarrow> rat" where
  "float_of_int n = fl64 (of_int n)"

text \<open>\<^verbatim>\<open>sum\<close> adds from the left, starting at \<^verbatim>\<open>0\<close>.\<close>

definition sum_py :: "rat list \<Rightarrow> rat" where
  "sum_py xs = foldl float_add 0 xs"


record CartItem =
  item_id :: string
  item_name :: string
  item_price :: rat
  item_size :: "string option"
  quantity :: int
  item_image :: "string option"

record CheckoutRequest =
  items :: "CartItem list"
  email :: "string option"
  shipping_address :: "string option"



section \<open>Properties\<close>

lemma mset_sorted_py: "mset (sorted_py key r xs) = mset xs"
  by (simp add: sorted_py_def)

lemma mset_gender_filter: "mset (gender_filter g xs) \<subseteq># mset xs"
  by (simp add: gender_filter_def)

lemma mset_category_filter: "mset (category_filter c xs) \<subseteq># mset xs"
  by (simp add: category_filter_def)

lemma mset_search_filter: "mset (search_filter q xs) \<subseteq># mset xs"
  by (simp add: search_filter_def Let_def)

lemma mset_stages:
  "mset (gender_stage g xs) \<subseteq># mset xs"
  "mset (category_stage c xs) \<subseteq># mset xs"
  "mset (search_stage q xs) \<subseteq># mset xs"
  "mset (sort_stage s xs) = mset xs"
  by (simp_all add: gender_stage_def category_stage_def search_stage_def sort_stage_def
      mset_gender_filter mset_category_filter mset_search_filter mset_sorted_py Let_def)

lemma lower_men: "lower ''men'' = ''men''"
  by (simp add: lower_def lower_char_def)

lemma lower_unisex: "lower ''unisex'' = ''unisex''"
  by (simp add: lower_def lower_char_def)

subsection \<open>Concrete queries on the sample dataset\<close>

lemma sample_women_desc:
  "list_products SAMPLE_PRODUCTS (Some ''women'') None None (Some ''price_desc'')
     = [gucci_bag_velvet, dior_heel_01]"
  by code_simp

lemma sample_men:
  "list_products SAMPLE_PRODUCTS (Some ''men'') None None None
     = [st_laurent_coat, ysl_boots_chelsea]"
  by code_simp

lemma sample_unisex: "gender_filter ''unisex'' SAMPLE_PRODUCTS = [balenciaga_tee]"
  by code_simp

subsection \<open>The result is drawn from the input\<close>

text \<open>
  C1. Whatever the four query parameters are, every product of the result is an element of
  the input list, and the result as a multiset is contained in the input as a multiset: no
  product occurs more often in the result than in the input.
\<close>

theorem list_products_sub_multiset:
  "set (list_products ps g c q s) \<subseteq> set ps \<and>
   mset (list_products ps g c q s) \<subseteq># mset ps"
proof -
  have "mset (list_products ps g c q s) \<subseteq># mset ps"
    unfolding list_products_def
    by (metis mset_stages subset_mset.order_trans)
  then show ?thesis
    using set_mset_mono by fastforce
qed

theorem list_products_sub_multiset_witness:
  "mset (list_products SAMPLE_PRODUCTS (Some ''women'') None None (Some ''price_desc''))
     \<subseteq># mset SAMPLE_PRODUCTS \<and>
   list_products SAMPLE_PRODUCTS (Some ''women'') None None (Some ''price_desc'')
     = [gucci_bag_velvet, dior_heel_01]"
  using list_products_sub_multiset
    [of SAMPLE_PRODUCTS "Some ''women''" None None "Some ''price_desc''"]
  by (simp add: sample_women_desc)

subsection \<open>The gender filter\<close>

lemma gender_filter_eq_plain: "gender_filter g ps = gender_filter_plain g ps"
  unfolding gender_filter_def gender_filter_plain_def
  by (rule filter_cong) auto

text \<open>
  C2. The gender filter of the source, with its extra disjunct for a literal
  \<^verbatim>\<open>unisex\<close> request, returns the same list as the plain case-insensitive comparison, for
  every product list and every parameter value; under the source's guard this is what the
  gender stage computes. A request for \<^verbatim>\<open>men\<close> never returns a product whose gender is
  \<^verbatim>\<open>unisex\<close>.
\<close>

theorem gender_filter_refines_plain:
  "gender_filter g ps = gender_filter_plain g ps \<and>
   gender_stage (Some g) ps = (if g = [] then ps else gender_filter_plain g ps) \<and>
   (\<forall>p \<in> set (list_products ps (Some ''men'') c q s). gender p \<noteq> ''unisex'')"
proof -
  have "\<forall>p \<in> set (gender_stage (Some ''men'') ps). gender p \<noteq> ''unisex''"
    by (auto simp: gender_stage_def gender_filter_def lower_men lower_unisex)
  moreover have "set (list_products ps (Some ''men'') c q s) \<subseteq> set (gender_stage (Some ''men'') ps)"
  proof -
    have "mset (list_products ps (Some ''men'') c q s) \<subseteq># mset (gender_stage (Some ''men'') ps)"
      unfolding list_products_def
      by (metis mset_stages(2,3,4) subset_mset.order_trans)
    then show ?thesis
      using set_mset_mono by fastforce
  qed
  ultimately show ?thesis
    by (auto simp: gender_filter_eq_plain gender_stage_def)
qed

theorem gender_filter_refines_plain_witness:
  "gender_filter_plain ''unisex'' SAMPLE_PRODUCTS = [balenciaga_tee] \<and>
   list_products SAMPLE_PRODUCTS (Some ''men'') None None None
     = [st_laurent_coat, ysl_boots_chelsea] \<and>
   gender st_laurent_coat \<noteq> ''unisex'' \<and> gender ysl_boots_chelsea \<noteq> ''unisex''"
  using gender_filter_refines_plain [of "''unisex''" SAMPLE_PRODUCTS None None None]
  by (simp add: sample_men sample_unisex)

subsection \<open>Sorting\<close>













subsection \<open>The filters commute\<close>

lemma stage_filters:
  "gender_stage g xs = filter (\<lambda>p. \<not> truthy g \<or> lower (gender p) = lower (the g)) xs"
  "category_stage c xs = filter (\<lambda>p. \<not> truthy c \<or> lower (category p) = lower (the c)) xs"
  "search_stage q xs = filter (\<lambda>p. \<not> truthy q \<or> str_in (lower (the q)) (lower (name p)) \<or>
       list_ex (\<lambda>t. str_in (lower (the q)) (lower t)) (tags p)) xs"
  by (auto simp: gender_stage_def category_stage_def search_stage_def gender_filter_def
      category_filter_def search_filter_def Let_def intro: filter_cong)

text \<open>
  C4. The three filter stages give the same list in each of the six orders in which they
  can be applied; the products of that list are those that pass each of the three stages
  when it is applied to the input alone, and they are the products of the query result.
\<close>

theorem filters_commute:
  "(let r = search_stage q (category_stage c (gender_stage g ps))
    in search_stage q (gender_stage g (category_stage c ps)) = r \<and>
       category_stage c (search_stage q (gender_stage g ps)) = r \<and>
       category_stage c (gender_stage g (search_stage q ps)) = r \<and>
       gender_stage g (search_stage q (category_stage c ps)) = r \<and>
       gender_stage g (category_stage c (search_stage q ps)) = r \<and>
       set r = set (gender_stage g ps) \<inter> set (category_stage c ps) \<inter> set (search_stage q ps) \<and>
       set (list_products ps g c q s) = set r)"
proof -
  have "set (sort_stage s xs) = set xs" for xs
    by (metis mset_stages(4) set_mset_mset)
  then show ?thesis
    unfolding Let_def list_products_def stage_filters
    by (auto intro: filter_cong)
qed

subsection \<open>Lookup by id\<close>

lemma get_product_find:
  "get_product ps pid =
     (case find (\<lambda>p. id' p = pid) ps of
        None \<Rightarrow> Inl (HTTPException 404 ''Product not found'')
      | Some p \<Rightarrow> Inr p)"
  by (induction ps) simp_all

lemma get_product_Inr_iff:
  "get_product ps pid = Inr p
      \<longleftrightarrow> (\<exists>pre post. ps = pre @ p # post \<and> id' p = pid \<and> (\<forall>x \<in> set pre. id' x \<noteq> pid))"
proof (induction ps)
  case Nil
  then show ?case by simp
next
  case (Cons a ps)
  show ?case
  proof (cases "id' a = pid")
    case True
    have "(\<exists>pre post. a # ps = pre @ p # post \<and> id' p = pid \<and> (\<forall>x \<in> set pre. id' x \<noteq> pid))
        \<longleftrightarrow> a = p"
    proof
      assume "\<exists>pre post. a # ps = pre @ p # post \<and> id' p = pid \<and> (\<forall>x \<in> set pre. id' x \<noteq> pid)"
      then obtain pre post where *: "a # ps = pre @ p # post" "\<forall>x \<in> set pre. id' x \<noteq> pid"
        by blast
      with True show "a = p"
        by (cases pre) auto
    next
      assume "a = p"
      with True have "a # ps = [] @ p # ps \<and> id' p = pid \<and> (\<forall>x \<in> set []. id' x \<noteq> pid)"
        by simp
      then show "\<exists>pre post. a # ps = pre @ p # post \<and> id' p = pid \<and> (\<forall>x \<in> set pre. id' x \<noteq> pid)"
        by blast
    qed
    with True show ?thesis
      by simp
  next
    case False
    have "(\<exists>pre post. a # ps = pre @ p # post \<and> id' p = pid \<and> (\<forall>x \<in> set pre. id' x \<noteq> pid))
        \<longleftrightarrow> (\<exists>pre post. ps = pre @ p # post \<and> id' p = pid \<and> (\<forall>x \<in> set pre. id' x \<noteq> pid))"
      (is "?L \<longleftrightarrow> ?R")
    proof
      assume ?L
      then obtain pre post where *: "a # ps = pre @ p # post" "id' p = pid" "\<forall>x \<in> set pre. id' x \<noteq> pid"
        by blast
      with False obtain pre' where "pre = a # pre'"
        by (cases pre) auto
      with * have "ps = pre' @ p # post \<and> id' p = pid \<and> (\<forall>x \<in> set pre'. id' x \<noteq> pid)"
        by simp
      then show ?R
        by blast
    next
      assume ?R
      then obtain pre post where "ps = pre @ p # post" "id' p = pid" "\<forall>x \<in> set pre. id' x \<noteq> pid"
        by blast
      with False have "a # ps = (a # pre) @ p # post \<and> id' p = pid \<and> (\<forall>x \<in> set (a # pre). id' x \<noteq> pid)"
        by simp
      then show ?L
        by blast
    qed
    with False Cons.IH show ?thesis
      by simp
  qed
qed

text \<open>
  C6. The lookup raises the 404 error exactly when no product of the list has the requested
  id, compared as a string, character by character. It returns \<open>p\<close> exactly when \<open>p\<close> is the
  first product of the list with that id: the list splits into a part without the id,
  then \<open>p\<close>, then the rest. When the id occurs exactly once in the list, the product that
  has it is returned as it is.
\<close>

theorem get_product_first_match:
  "(get_product ps pid = Inl (HTTPException 404 ''Product not found'')
      \<longleftrightarrow> (\<forall>p \<in> set ps. id' p \<noteq> pid)) \<and>
   (\<forall>p. get_product ps pid = Inr p
      \<longleftrightarrow> (\<exists>pre post. ps = pre @ p # post \<and> id' p = pid \<and> (\<forall>x \<in> set pre. id' x \<noteq> pid))) \<and>
   (\<forall>p. filter (\<lambda>x. id' x = pid) ps = [p] \<longrightarrow> get_product ps pid = Inr p)"
proof (intro conjI allI impI)
  show "get_product ps pid = Inl (HTTPException 404 ''Product not found'')
      \<longleftrightarrow> (\<forall>p \<in> set ps. id' p \<noteq> pid)"
    by (induction ps) auto
next
  fix p
  show "get_product ps pid = Inr p
      \<longleftrightarrow> (\<exists>pre post. ps = pre @ p # post \<and> id' p = pid \<and> (\<forall>x \<in> set pre. id' x \<noteq> pid))"
    by (rule get_product_Inr_iff)
next
  fix p
  assume "filter (\<lambda>x. id' x = pid) ps = [p]"
  then show "get_product ps pid = Inr p"
    by (induction ps) (auto split: if_splits)
qed

lemma sample_dior: "get_product SAMPLE_PRODUCTS ''dior-heel-01'' = Inr dior_heel_01"
  by code_simp

lemma sample_dior_once: "filter (\<lambda>x. id' x = ''dior-heel-01'') SAMPLE_PRODUCTS = [dior_heel_01]"
  by code_simp

lemma sample_dior_capitals: "\<forall>p \<in> set SAMPLE_PRODUCTS. id' p \<noteq> ''Dior-Heel-01''"
  by code_simp

theorem get_product_first_match_witness:
  "filter (\<lambda>x. id' x = ''dior-heel-01'') SAMPLE_PRODUCTS = [dior_heel_01] \<and>
   get_product SAMPLE_PRODUCTS ''dior-heel-01'' = Inr dior_heel_01 \<and>
   ''Dior-Heel-01'' \<notin> set (map id' SAMPLE_PRODUCTS) \<and>
   get_product SAMPLE_PRODUCTS ''Dior-Heel-01'' = Inl (HTTPException 404 ''Product not found'')"
  using get_product_first_match [of SAMPLE_PRODUCTS "''dior-heel-01''"]
    get_product_first_match [of SAMPLE_PRODUCTS "''Dior-Heel-01''"]
    sample_dior_once sample_dior_capitals
  by auto

subsection \<open>Free-text search\<close>

lemma str_in_iff: "str_in a b \<longleftrightarrow> is_substring a b"
proof -
  have "str_in a b \<longleftrightarrow> sublist a b"
    by (induction b) (simp_all add: sublist_Cons_right)
  then show ?thesis
    by (simp add: is_substring_def sublist_def)
qed

lemma sample_gold: "list_products SAMPLE_PRODUCTS None None (Some ''gold'') None = [dior_heel_01]"
  by code_simp

lemma gold_GOLD: "lower ''GOLD'' = lower ''gold''"
  by code_simp

lemma gold_not_in_name: "\<not> str_in (lower ''gold'') (lower (name dior_heel_01))"
  by code_simp

lemma sample_GOLD: "search_filter ''GOLD'' SAMPLE_PRODUCTS = [dior_heel_01]"
  by code_simp

text \<open>
  C7. The search filter keeps exactly the products for which the lowercased search text
  is a substring of the lowercased name or of the lowercasing of one of the tags, and for
  a non-empty search text this filter is the query when no other parameter is given. On
  the sample dataset \<^verbatim>\<open>q=gold\<close> returns \<^verbatim>\<open>dior-heel-01\<close> alone, whose name does not
  contain the text: it matches through its tag.
\<close>

theorem search_filter_exact:
  "search_filter q ps =
     filter (\<lambda>p. is_substring (lower q) (lower (name p)) \<or>
                 (\<exists>t \<in> set (tags p). is_substring (lower q) (lower t))) ps \<and>
   (q \<noteq> [] \<longrightarrow> list_products ps None None (Some q) None = search_filter q ps) \<and>
   list_products SAMPLE_PRODUCTS None None (Some ''gold'') None = [dior_heel_01] \<and>
   \<not> is_substring (lower ''gold'') (lower (name dior_heel_01))"
proof (intro conjI impI)
  show "search_filter q ps =
     filter (\<lambda>p. is_substring (lower q) (lower (name p)) \<or>
                 (\<exists>t \<in> set (tags p). is_substring (lower q) (lower t))) ps"
    by (simp add: search_filter_def Let_def list_ex_iff str_in_iff)
next
  assume "q \<noteq> []"
  then show "list_products ps None None (Some q) None = search_filter q ps"
    by (simp add: list_products_def gender_stage_def category_stage_def search_stage_def
        sort_stage_def)
next
  show "list_products SAMPLE_PRODUCTS None None (Some ''gold'') None = [dior_heel_01]"
    by (rule sample_gold)
next
  show "\<not> is_substring (lower ''gold'') (lower (name dior_heel_01))"
    using gold_not_in_name by (simp add: str_in_iff)
qed

theorem search_filter_exact_witness:
  "''GOLD'' \<noteq> [] \<and>
   list_products SAMPLE_PRODUCTS None None (Some ''GOLD'') None = [dior_heel_01] \<and>
   (\<exists>t \<in> set (tags dior_heel_01). is_substring (lower ''GOLD'') (lower t))"
proof -
  let ?P = "\<lambda>p. is_substring (lower ''GOLD'') (lower (name p)) \<or>
                 (\<exists>t \<in> set (tags p). is_substring (lower ''GOLD'') (lower t))"
  have eq: "search_filter ''GOLD'' SAMPLE_PRODUCTS = filter ?P SAMPLE_PRODUCTS"
    and lp: "list_products SAMPLE_PRODUCTS None None (Some ''GOLD'') None
               = search_filter ''GOLD'' SAMPLE_PRODUCTS"
    using search_filter_exact [of "''GOLD''" SAMPLE_PRODUCTS] by simp_all
  have "dior_heel_01 \<in> set (filter ?P SAMPLE_PRODUCTS)"
    unfolding eq [symmetric] sample_GOLD by simp
  then have "?P dior_heel_01"
    by simp
  moreover have "\<not> is_substring (lower ''GOLD'') (lower (name dior_heel_01))"
    using gold_not_in_name unfolding gold_GOLD str_in_iff .
  ultimately have "\<exists>t \<in> set (tags dior_heel_01). is_substring (lower ''GOLD'') (lower t)"
    by blast
  with lp show ?thesis
    unfolding sample_GOLD by simp
qed

subsection \<open>Empty parameters\<close>

text \<open>
  C10. An empty string given for \<^verbatim>\<open>gender\<close>, \<^verbatim>\<open>category\<close>, \<^verbatim>\<open>q\<close> or \<^verbatim>\<open>sort\<close> gives the
  result that leaving the parameter out gives, whatever the other parameters are; with all
  four empty the input list is returned unchanged.
\<close>

theorem empty_parameter_is_absent:
  "list_products ps (Some []) c q s = list_products ps None c q s \<and>
   list_products ps g (Some []) q s = list_products ps g None q s \<and>
   list_products ps g c (Some []) s = list_products ps g c None s \<and>
   list_products ps g c q (Some []) = list_products ps g c q None \<and>
   list_products ps (Some []) (Some []) (Some []) (Some []) = ps"
  by (simp add: list_products_def gender_stage_def category_stage_def search_stage_def
      sort_stage_def)

subsection \<open>The resolver falls back to the sample dataset\<close>

lemma load_products_ok:
  "list_all2 (\<lambda>d p. product_of_document d = Inr p) docs products \<Longrightarrow>
   load_products docs acc = Inr (acc @ products)"
  by (induction docs products arbitrary: acc rule: list_all2_induct) simp_all

lemma load_products_bad:
  "d \<in> set docs \<Longrightarrow> product_of_document d = Inl e \<Longrightarrow> \<exists>e'. load_products docs acc = Inl e'"
  by (induction docs arbitrary: acc) (auto split: sum.splits)

lemma document_ok:
  "product_of_document
     \<lparr> doc__id = Some ''65f0'', doc_id = None, doc_name = Some ''Silk Scarf'',
       doc_price = Some 320, doc_gender = Some ''women'', doc_category = Some ''accessories'',
       doc_sizes = None, doc_images = None, doc_description = None, doc_tags = Some [''silk''],
       doc_featured = None, doc_new_arrival = Some True \<rparr>
   = Inr \<lparr> id' = ''65f0'', name = ''Silk Scarf'', price = 320, gender = ''women'',
           category = ''accessories'', sizes = [], images = [], description = None,
           tags = [''silk''], featured = False, new_arrival = True \<rparr>"
  by (simp add: product_of_document_def document_id_def)

lemma document_bad:
  "product_of_document
     \<lparr> doc__id = Some ''65f1'', doc_id = None, doc_name = Some ''Silk Scarf'',
       doc_price = None, doc_gender = Some ''women'', doc_category = Some ''accessories'',
       doc_sizes = None, doc_images = None, doc_description = None, doc_tags = None,
       doc_featured = None, doc_new_arrival = None \<rparr>
   = Inl ValidationError"
  by (simp add: product_of_document_def)

text \<open>
  C8. The resolver always returns a list and never an error. It returns the sample dataset
  when the store cannot be imported, when it is not configured, when reading it raises,
  when a document fails to map to a product, and when the store holds no documents. When
  the store holds at least one document and every document maps to a product, it returns
  those products, in the order read.
\<close>

theorem fetch_falls_back:
  "(\<exists>ps. fetch_products_from_db_or_sample env = Inr ps) \<and>
   fetch_products_from_db_or_sample Unavailable = Inr SAMPLE_PRODUCTS \<and>
   fetch_products_from_db_or_sample NotConfigured = Inr SAMPLE_PRODUCTS \<and>
   fetch_products_from_db_or_sample (Configured (Inl e)) = Inr SAMPLE_PRODUCTS \<and>
   ((\<exists>d \<in> set docs. \<exists>e'. product_of_document d = Inl e') \<longrightarrow>
      fetch_products_from_db_or_sample (Configured (Inr docs)) = Inr SAMPLE_PRODUCTS) \<and>
   fetch_products_from_db_or_sample (Configured (Inr [])) = Inr SAMPLE_PRODUCTS \<and>
   (docs \<noteq> [] \<and> list_all2 (\<lambda>d p. product_of_document d = Inr p) docs products \<longrightarrow>
      fetch_products_from_db_or_sample (Configured (Inr docs)) = Inr products)"
proof (intro conjI impI)
  show "\<exists>ps. fetch_products_from_db_or_sample env = Inr ps"
    by (simp add: fetch_products_from_db_or_sample_def split: sum.splits option.splits)
next
  assume "\<exists>d \<in> set docs. \<exists>e'. product_of_document d = Inl e'"
  then obtain e' where "load_products docs [] = Inl e'"
    using load_products_bad by blast
  then show "fetch_products_from_db_or_sample (Configured (Inr docs)) = Inr SAMPLE_PRODUCTS"
    by (simp add: fetch_products_from_db_or_sample_def try_db_def)
next
  assume a: "docs \<noteq> [] \<and> list_all2 (\<lambda>d p. product_of_document d = Inr p) docs products"
  then have "load_products docs [] = Inr products"
    using load_products_ok [of docs products "[]"] by simp
  moreover from a have "products \<noteq> []"
    by auto
  ultimately show "fetch_products_from_db_or_sample (Configured (Inr docs)) = Inr products"
    by (simp add: fetch_products_from_db_or_sample_def try_db_def)
qed (simp_all add: fetch_products_from_db_or_sample_def try_db_def)

theorem fetch_falls_back_witness:
  "fetch_products_from_db_or_sample (Configured (Inr
     [\<lparr> doc__id = Some ''65f0'', doc_id = None, doc_name = Some ''Silk Scarf'',
        doc_price = Some 320, doc_gender = Some ''women'', doc_category = Some ''accessories'',
        doc_sizes = None, doc_images = None, doc_description = None, doc_tags = Some [''silk''],
        doc_featured = None, doc_new_arrival = Some True \<rparr>]))
   = Inr [\<lparr> id' = ''65f0'', name = ''Silk Scarf'', price = 320, gender = ''women'',
            category = ''accessories'', sizes = [], images = [], description = None,
            tags = [''silk''], featured = False, new_arrival = True \<rparr>] \<and>
   fetch_products_from_db_or_sample (Configured (Inr
     [\<lparr> doc__id = Some ''65f1'', doc_id = None, doc_name = Some ''Silk Scarf'',
        doc_price = None, doc_gender = Some ''women'', doc_category = Some ''accessories'',
        doc_sizes = None, doc_images = None, doc_description = None, doc_tags = None,
        doc_featured = None, doc_new_arrival = None \<rparr>]))
   = Inr SAMPLE_PRODUCTS"
  using
    fetch_falls_back [of _ _
      "[\<lparr> doc__id = Some ''65f0'', doc_id = None, doc_name = Some ''Silk Scarf'',
         doc_price = Some 320, doc_gender = Some ''women'', doc_category = Some ''accessories'',
         doc_sizes = None, doc_images = None, doc_description = None, doc_tags = Some [''silk''],
         doc_featured = None, doc_new_arrival = Some True \<rparr>]"
      "[\<lparr> id' = ''65f0'', name = ''Silk Scarf'', price = 320, gender = ''women'',
          category = ''accessories'', sizes = [], images = [], description = None,
          tags = [''silk''], featured = False, new_arrival = True \<rparr>]"]
    fetch_falls_back [of _ _
      "[\<lparr> doc__id = Some ''65f1'', doc_id = None, doc_name = Some ''Silk Scarf'',
         doc_price = None, doc_gender = Some ''women'', doc_category = Some ''accessories'',
         doc_sizes = None, doc_images = None, doc_description = None, doc_tags = None,
         doc_featured = None, doc_new_arrival = None \<rparr>]" _]
  by (simp add: document_ok document_bad)

subsection \<open>Checkout\<close>

lemma round_half_even_near: "\<bar>of_int (round_half_even x) - x\<bar> \<le> 1 / 2"
  unfolding round_half_even_def Let_def
  by (auto simp: abs_if; linarith)

lemma pow2_pos: "0 < pow2 e"
  by (simp add: pow2_def)

lemma pow2_Suc: "pow2 (e + 1) = 2 * pow2 e"
proof (cases "0 \<le> e")
  case True
  then show ?thesis
    by (simp add: pow2_def nat_add_distrib)
next
  case False
  then have "nat (- e) = Suc (nat (- (e + 1)))"
    by simp
  with False show ?thesis
    by (cases "e = -1") (simp_all add: pow2_def)
qed

lemma pow2_pred: "pow2 (e - 1) = pow2 e / 2"
  using pow2_Suc [of "e - 1"] by simp

lemma ilog2_bounds: "0 < x \<Longrightarrow> pow2 (ilog2 x) \<le> x \<and> x < pow2 (ilog2 x + 1)"
proof (induction x rule: ilog2.induct)
  case (1 x)
  show ?case
  proof (cases "2 \<le> x")
    case True
    define e where "e = ilog2 (x / 2)"
    from True 1 have "pow2 e \<le> x / 2 \<and> x / 2 < pow2 (e + 1)"
      by (simp add: e_def)
    moreover from True "1.prems" have "ilog2 x = e + 1"
      unfolding e_def by (subst ilog2.simps) simp
    ultimately show ?thesis
      using pow2_Suc [of e] pow2_Suc [of "e + 1"] by simp
  next
    case False
    show ?thesis
    proof (cases "x < 1")
      case True
      define e where "e = ilog2 (x * 2)"
      from True False 1 have "pow2 e \<le> x * 2 \<and> x * 2 < pow2 (e + 1)"
        by (simp add: e_def)
      moreover from True False "1.prems" have "ilog2 x = e - 1"
        unfolding e_def by (subst ilog2.simps) simp
      ultimately show ?thesis
        using pow2_Suc [of "e - 1"] pow2_Suc [of e] by simp
    next
      case ge: False
      with False "1.prems" have "ilog2 x = 0"
        by (subst ilog2.simps) simp
      with ge False show ?thesis
        by (simp add: pow2_def)
    qed
  qed
qed

text \<open>\<open>fl64\<close> rounds to a nearest value: the error is at most half a unit in the last place.\<close>

lemma fl64_near: "x \<noteq> 0 \<Longrightarrow> \<bar>fl64 x - x\<bar> \<le> pow2 (ilog2 \<bar>x\<bar> - 52) / 2"
proof -
  assume "x \<noteq> 0"
  define u where "u = pow2 (ilog2 \<bar>x\<bar> - 52)"
  have u: "0 < u"
    by (simp add: u_def pow2_pos)
  have "\<bar>of_int (round_half_even (x / u)) - x / u\<bar> \<le> 1 / 2"
    by (rule round_half_even_near)
  then have "\<bar>of_int (round_half_even (x / u)) - x / u\<bar> * u \<le> 1 / 2 * u"
    using u by (simp add: mult_right_mono)
  moreover have "\<bar>of_int (round_half_even (x / u)) - x / u\<bar> * u
      = \<bar>of_int (round_half_even (x / u)) * u - x\<bar>"
  proof -
    have "(of_int (round_half_even (x / u)) - x / u) * u = of_int (round_half_even (x / u)) * u - x"
      using u by (simp add: left_diff_distrib)
    moreover have "\<bar>of_int (round_half_even (x / u)) - x / u\<bar> * u
        = \<bar>(of_int (round_half_even (x / u)) - x / u) * u\<bar>"
      using u by (simp add: abs_mult)
    ultimately show ?thesis
      by simp
  qed
  ultimately show ?thesis
    using \<open>x \<noteq> 0\<close> by (simp add: fl64_def Let_def u_def)
qed

text \<open>
  The request of the specification's scenario: two units at 100 and one unit at 49.995,
  the latter being the float that the decimal 49.995 denotes.
\<close>

lemma price_49_995: "fl64 (49995 / 1000) = 7036170730324623 / 140737488355328"
  by code_simp

lemma example_sum:
  "sum_py [float_mul 100 (float_of_int 2), float_mul (fl64 (49995 / 1000)) (float_of_int 1)]
     = 2198979275086889 / 8796093022208"
  by code_simp



text \<open>
  The sum of the scenario computed without any rounding error, 249.995, is a tie between
  249.99 and 250.00, and rounds to 250.00 as well.
\<close>

lemma exact_tie: "round_half_even ((100 * 2 + 49995 / 1000) * 100) = 25000"
  by code_simp



end
